theory Spec2Isabelle
  imports
    Main
    "HOL-Library.Char_ord"
    "HOL-Library.List_Lexorder"
    "HOL-Library.Sublist"
begin

section \<open>Python values used by the programs\<close>

text \<open>
  Exceptions are values. \<open>RuntimeError\<close> carries its message, \<open>SystemExit\<close> the status
  given to \<^verbatim>\<open>sys.exit\<close>, \<open>KeyError\<close> is what a dict subscript raises on a missing key, and
  \<open>LibraryError\<close> stands for an exception raised inside a library call (its text is the
  exception's name).
\<close>

datatype error = RuntimeError string | SystemExit nat | KeyError | LibraryError string

text \<open>
  What a clause \<^verbatim>\<open>except Exception\<close> catches: every exception but the three that derive
  from \<^verbatim>\<open>BaseException\<close> only, \<^verbatim>\<open>SystemExit\<close>, \<^verbatim>\<open>KeyboardInterrupt\<close> and
  \<^verbatim>\<open>GeneratorExit\<close>.
\<close>

fun is_Exception :: "error \<Rightarrow> bool" where
  "is_Exception (SystemExit n) = False"
| "is_Exception (LibraryError name) =
     (name \<noteq> ''KeyboardInterrupt'' \<and> name \<noteq> ''GeneratorExit'')"
| "is_Exception e = True"

text \<open>
  A Python \<^verbatim>\<open>dict\<close> is an association list in insertion order. \<^verbatim>\<open>k in d\<close> is
  \<open>dict_contains\<close>, \<^verbatim>\<open>d[k]\<close> is \<open>dict_getitem\<close> (it raises \<open>KeyError\<close> on a missing
  key), and \<^verbatim>\<open>d[k] = v\<close> is \<open>dict_setitem\<close>: an existing key keeps its position, a new
  key goes to the end.
\<close>

definition dict_contains :: "'k \<Rightarrow> ('k \<times> 'v) list \<Rightarrow> bool" where
  "dict_contains k d = (map_of d k \<noteq> None)"

definition dict_getitem :: "('k \<times> 'v) list \<Rightarrow> 'k \<Rightarrow> error + 'v" where
  "dict_getitem d k = (case map_of d k of None \<Rightarrow> Inl KeyError | Some v \<Rightarrow> Inr v)"

fun dict_setitem :: "('k \<times> 'v) list \<Rightarrow> 'k \<Rightarrow> 'v \<Rightarrow> ('k \<times> 'v) list" where
  "dict_setitem [] k v = [(k, v)]"
| "dict_setitem ((k', v') # d) k v =
     (if k' = k then (k, v) # d else (k', v') # dict_setitem d k v)"

section \<open>The trie (trie.py) and its membership query (validate\_words.py)\<close>

text \<open>
  \<^verbatim>\<open>class TrieNode\<close>: the attribute \<^verbatim>\<open>children\<close> is a dict from one character to a
  node, \<^verbatim>\<open>is_word\<close> a boolean. The character type is a parameter: insertion and lookup
  only use characters as dict keys, so every result below holds for Python's code points
  whatever their representation. Each node owns its children (a tree, as \<^verbatim>\<open>insert\<close>
  builds it from fresh nodes), so the in-place mutation of the source is written as a
  function returning the updated node.
\<close>

datatype 'c TrieNode = TrieNode (children: "('c \<times> 'c TrieNode) list") (is_word: bool)

text \<open>\<^verbatim>\<open>TrieNode.__init__\<close>: no children, not a word.\<close>

definition TrieNode_init :: "'c TrieNode" where
  "TrieNode_init = TrieNode [] False"

text \<open>
  \<^verbatim>\<open>TrieNode.insert\<close> (trie.py, lines 8 to 17). The loop over the characters of the word
  is the recursion over the list: a missing child is created, the walk moves to
  \<^verbatim>\<open>node.children[ch]\<close> (a dict subscript, which can raise \<open>KeyError\<close>), and after the
  last character the flag of the node reached is set. The value returned on success is the
  node \<^verbatim>\<open>self\<close> after the call; the Python method itself returns \<^verbatim>\<open>None\<close>.
\<close>

fun trie_insert :: "'c list \<Rightarrow> 'c TrieNode \<Rightarrow> error + 'c TrieNode" where
  "trie_insert [] node = Inr (TrieNode (children node) True)"
| "trie_insert (ch # word) node =
     (let cs = (if \<not> dict_contains ch (children node)
                then dict_setitem (children node) ch TrieNode_init
                else children node)
      in case dict_getitem cs ch of
           Inl e \<Rightarrow> Inl e
         | Inr child \<Rightarrow>
             (case trie_insert word child of
                Inl e \<Rightarrow> Inl e
              | Inr child' \<Rightarrow> Inr (TrieNode (dict_setitem cs ch child') (is_word node))))"

text \<open>
  \<^verbatim>\<open>is_in_trie\<close> (validate\_words.py, lines 103 to 122). On a \<^verbatim>\<open>TrieNode\<close> the test
  \<^verbatim>\<open>hasattr(node, "children")\<close> is true and \<^verbatim>\<open>getattr(node, "is_word", False)\<close> is the
  flag, so the two early returns left are the missing child and the end of the word.
\<close>

fun is_in_trie :: "'c TrieNode \<Rightarrow> 'c list \<Rightarrow> error + bool" where
  "is_in_trie node [] = Inr (is_word node)"
| "is_in_trie node (ch # word) =
     (if \<not> dict_contains ch (children node) then Inr False
      else case dict_getitem (children node) ch of
             Inl e \<Rightarrow> Inl e
           | Inr child \<Rightarrow> is_in_trie child word)"

text \<open>
  Building the trie (compile\_all\_english\_words.py, lines 470 to 473):
  \<^verbatim>\<open>root = TrieNode()\<close>, then \<^verbatim>\<open>root.insert(w)\<close> for each word. The list is the order in
  which the loop meets the words.
\<close>

fun insert_all :: "'c list list \<Rightarrow> 'c TrieNode \<Rightarrow> error + 'c TrieNode" where
  "insert_all [] root = Inr root"
| "insert_all (w # ws) root =
     (case trie_insert w root of Inl e \<Rightarrow> Inl e | Inr root' \<Rightarrow> insert_all ws root')"

definition build_trie :: "'c list list \<Rightarrow> error + 'c TrieNode" where
  "build_trie ws = insert_all ws TrieNode_init"

text \<open>
  The node at the end of a path from a node, if the path exists. It is used to state which
  nodes an insertion touches.
\<close>

fun node_at :: "'c TrieNode \<Rightarrow> 'c list \<Rightarrow> 'c TrieNode option" where
  "node_at node [] = Some node"
| "node_at node (ch # p) =
     (case map_of (children node) ch of None \<Rightarrow> None | Some child \<Rightarrow> node_at child p)"

section \<open>Strings\<close>

text \<open>
  The text the programs read (word lists, the omit file, the words to validate) is
  modelled over HOL's 8-bit characters, read as the code points U+0000 to U+00FF. The
  functions below are Python's \<^verbatim>\<open>str\<close> built-ins on that range: \<^verbatim>\<open>isspace\<close>,
  \<^verbatim>\<open>strip()\<close>, \<^verbatim>\<open>rstrip("\n\r")\<close>, \<^verbatim>\<open>lower()\<close>, \<^verbatim>\<open>isalpha()\<close> and
  \<^verbatim>\<open>startswith\<close>. The letters of the range are A-Z, a-z, U+00AA, U+00B5, U+00BA,
  U+00C0-U+00D6, U+00D8-U+00F6 and U+00F8-U+00FF; the upper-case ones are A-Z,
  U+00C0-U+00D6 and U+00D8-U+00DE, each 32 below its lower-case form.
\<close>

definition cp :: "char \<Rightarrow> nat" where
  "cp c = of_char c"

definition py_isspace :: "char \<Rightarrow> bool" where
  "py_isspace c = ((9 \<le> cp c \<and> cp c \<le> 13) \<or> (28 \<le> cp c \<and> cp c \<le> 32) \<or>
                   cp c = 133 \<or> cp c = 160)"

definition str_strip :: "string \<Rightarrow> string" where
  "str_strip s = rev (dropWhile py_isspace (rev (dropWhile py_isspace s)))"

definition str_rstrip_newlines :: "string \<Rightarrow> string" where
  "str_rstrip_newlines s = rev (dropWhile (\<lambda>c. cp c = 10 \<or> cp c = 13) (rev s))"

definition py_lower_char :: "char \<Rightarrow> char" where
  "py_lower_char c =
     (if (65 \<le> cp c \<and> cp c \<le> 90) \<or> (192 \<le> cp c \<and> cp c \<le> 222 \<and> cp c \<noteq> 215)
      then char_of (cp c + 32) else c)"

definition str_lower :: "string \<Rightarrow> string" where
  "str_lower s = map py_lower_char s"

definition py_isalpha_char :: "char \<Rightarrow> bool" where
  "py_isalpha_char c =
     ((65 \<le> cp c \<and> cp c \<le> 90) \<or> (97 \<le> cp c \<and> cp c \<le> 122) \<or>
      cp c = 170 \<or> cp c = 181 \<or> cp c = 186 \<or>
      (192 \<le> cp c \<and> cp c \<le> 214) \<or> (216 \<le> cp c \<and> cp c \<le> 246) \<or>
      (248 \<le> cp c \<and> cp c \<le> 255))"

definition str_isalpha :: "string \<Rightarrow> bool" where
  "str_isalpha s = (s \<noteq> [] \<and> list_all py_isalpha_char s)"

definition str_startswith :: "string \<Rightarrow> string \<Rightarrow> bool" where
  "str_startswith s p = (take (length p) s = p)"

text \<open>
  \<^verbatim>\<open>is_pure_alpha\<close> (compile\_all\_english\_words.py, lines 82 to 84):
  \<^verbatim>\<open>re.fullmatch(r"[a-z]+", word)\<close>.
\<close>

definition is_pure_alpha :: "string \<Rightarrow> bool" where
  "is_pure_alpha word = (word \<noteq> [] \<and> list_all (\<lambda>c. 97 \<le> cp c \<and> cp c \<le> 122) word)"

text \<open>Whether a value is true in a Python condition: an argument that is None or empty is not.\<close>

definition truthy :: "string option \<Rightarrow> bool" where
  "truthy a = (case a of None \<Rightarrow> False | Some s \<Rightarrow> s \<noteq> [])"

section \<open>The source loaders (compile\_all\_english\_words.py)\<close>

text \<open>
  The four required loaders (DWYL, SCOWL, WordNet, wordfreq) fetch and parse outside the
  program (git, HTTP, tar, NLTK, wordfreq). Each has the same shape: it raises on the way,
  or it collects a set \<^verbatim>\<open>words\<close>, raises \<^verbatim>\<open>RuntimeError\<close> if that set is empty and
  returns it otherwise. The argument is the outcome of the first part: the exception
  raised, or the set collected.
\<close>

definition load_dwyl_words :: "error + string set \<Rightarrow> error + string set" where
  "load_dwyl_words collected =
     (case collected of
        Inl e \<Rightarrow> Inl e
      | Inr words \<Rightarrow>
          if words = {}
          then Inl (RuntimeError ''DWYL loader error: no valid words found in words_alpha.txt'')
          else Inr words)"

definition load_scowl_words :: "error + string set \<Rightarrow> error + string set" where
  "load_scowl_words collected =
     (case collected of
        Inl e \<Rightarrow> Inl e
      | Inr words \<Rightarrow>
          if words = {}
          then Inl (RuntimeError
                 ''SCOWL loader error: failed to load any words from extracted file'')
          else Inr words)"

definition load_wordnet_words :: "error + string set \<Rightarrow> error + string set" where
  "load_wordnet_words collected =
     (case collected of
        Inl e \<Rightarrow> Inl e
      | Inr lemmas \<Rightarrow>
          if lemmas = {}
          then Inl (RuntimeError ''WordNet loader error: no lemmas found'')
          else Inr lemmas)"

definition load_wordfreq_words :: "error + string set \<Rightarrow> error + string set" where
  "load_wordfreq_words collected =
     (case collected of
        Inl e \<Rightarrow> Inl e
      | Inr words \<Rightarrow>
          if words = {}
          then Inl (RuntimeError ''wordfreq loader error: no words retrieved'')
          else Inr words)"

text \<open>
  \<^verbatim>\<open>load_linux_dict_words\<close> (lines 266 to 289). The argument is the content of
  /usr/share/dict/words as the lines the file iterator yields, or None when
  \<^verbatim>\<open>os.path.isfile\<close> is false.
\<close>

fun linux_dict_loop :: "string list \<Rightarrow> string set \<Rightarrow> string set" where
  "linux_dict_loop [] words = words"
| "linux_dict_loop (line # f) words =
     (let w = str_lower (str_strip line)
      in if w \<noteq> [] \<and> is_pure_alpha w then linux_dict_loop f (insert w words)
         else linux_dict_loop f words)"

definition load_linux_dict_words :: "string list option \<Rightarrow> error + string set" where
  "load_linux_dict_words dict_file =
     (case dict_file of
        None \<Rightarrow> Inr {}
      | Some f \<Rightarrow>
          (let words = linux_dict_loop f {}
           in if words = {} then Inr {} else Inr words))"

text \<open>
  \<^verbatim>\<open>load_moby_words\<close> (lines 296 to 331). \<open>moby_file\<close> is the argument of the call,
  \<open>content\<close> the lines of that file, or None when \<^verbatim>\<open>os.path.isfile\<close> is false. The
  pattern \<^verbatim>\<open>^\s*2\.\s+Hyphenated Words\<close> is matched at the start of the line, ignoring
  case. The loop stops (\<^verbatim>\<open>break\<close>) at the first blank line or section header after the
  start marker.
\<close>

definition section_header_match :: "string \<Rightarrow> bool" where
  "section_header_match ln =
     (let r = dropWhile py_isspace ln
      in str_startswith r ''2.'' \<and>
         (case drop 2 r of
            [] \<Rightarrow> False
          | c # r' \<Rightarrow> py_isspace c \<and>
              str_startswith (str_lower (dropWhile py_isspace r')) ''hyphenated words''))"

fun moby_loop :: "bool \<Rightarrow> string list \<Rightarrow> string set \<Rightarrow> string set" where
  "moby_loop start_reading [] words = words"
| "moby_loop start_reading (line # f) words =
     (let ln = str_rstrip_newlines line
      in if \<not> start_reading
         then (if str_startswith (str_strip ln) ''1. Standard English Words''
               then moby_loop True f words
               else moby_loop start_reading f words)
         else if str_strip ln = [] then words
         else if section_header_match ln then words
         else (let w = str_lower (str_strip ln)
               in if w \<noteq> [] \<and> is_pure_alpha w then moby_loop start_reading f (insert w words)
                  else moby_loop start_reading f words))"

definition load_moby_words :: "string option \<Rightarrow> string list option \<Rightarrow> error + string set" where
  "load_moby_words moby_file content =
     (if \<not> truthy moby_file then Inr {}
      else case content of
             None \<Rightarrow>
               Inl (RuntimeError (''Moby loader error: file not found: '' @
                      (case moby_file of None \<Rightarrow> [] | Some path \<Rightarrow> path)))
           | Some f \<Rightarrow>
               (let words = moby_loop False f {}
                in if words = {}
                   then Inl (RuntimeError
                     (''Moby loader error: no valid words found in '' @ [CHR 0x27] @
                      ''1. Standard English Words'' @ [CHR 0x27] @ '' section''))
                   else Inr words))"

text \<open>
  \<^verbatim>\<open>load_omit_words\<close> (lines 338 to 356). The argument is the lines of the omit file, or
  None when opening it raises \<^verbatim>\<open>FileNotFoundError\<close>, which ends the program with
  \<^verbatim>\<open>sys.exit(1)\<close>.
\<close>

definition load_omit_words :: "string list option \<Rightarrow> error + string set" where
  "load_omit_words omit_lines =
     (case omit_lines of
        None \<Rightarrow> Inl (SystemExit 1)
      | Some f \<Rightarrow>
          Inr (set (map (\<lambda>line. str_lower (str_strip line))
                 (filter (\<lambda>line. str_strip line \<noteq> [] \<and>
                                  is_pure_alpha (str_lower (str_strip line))) f))))"

section \<open>Aggregation, the word list and the trie file (main, lines 426 to 490)\<close>

text \<open>
  Lines 426 to 451: the union of the source sets in their order, the test that raises on
  an empty union, then the removal of the omit words. The test comes before the removal.
\<close>

fun union_loop :: "'w set list \<Rightarrow> 'w set \<Rightarrow> 'w set" where
  "union_loop [] total_union = total_union"
| "union_loop (s # rest) total_union = union_loop rest (total_union \<union> s)"

definition aggregate :: "'w set list \<Rightarrow> 'w set \<Rightarrow> error + 'w set" where
  "aggregate sources omit_set =
     (let total_union = union_loop sources {}
      in if total_union = {}
         then Inl (RuntimeError ''Final union is empty; no words were loaded from any source.'')
         else Inr (if omit_set \<noteq> {} then total_union - omit_set else total_union))"

text \<open>
  Lines 456 to 458: every word of \<^verbatim>\<open>sorted(total_union)\<close> is written followed by a
  newline. Python compares strings by code point, first difference first, a proper prefix
  before its extensions: the order of \<open>List_Lexorder\<close> over \<open>Char_ord\<close>.
\<close>

definition write_word_list :: "string set \<Rightarrow> string" where
  "write_word_list total_union =
     concat (map (\<lambda>w. w @ [CHR 0x0A]) (sorted_list_of_set total_union))"

text \<open>
  Lines 475 to 490. \<^verbatim>\<open>pickle.dump\<close> is the library's: \<open>dump\<close> gives the bytes it
  writes for a trie, or the exception it raises. The file is then read back: \<open>header\<close>
  is its first two bytes and \<open>trailer\<close> its last byte, read after
  \<^verbatim>\<open>f.seek(-1, os.SEEK_END)\<close>, which raises \<^verbatim>\<open>OSError\<close> on an empty file. The test of
  line 486 is \<open>markers_mismatch\<close>: a first byte other than 0x80 or a last byte other than
  the full stop. It only prints a warning. The clause \<^verbatim>\<open>except Exception\<close> prints an
  error and ends the program with \<^verbatim>\<open>sys.exit(1)\<close>; an exception it does not catch
  leaves the block as it is. The file read back is taken to hold the bytes just written.
  The result is the bytes written and whether the warning was printed.
\<close>

definition markers_mismatch :: "string \<Rightarrow> bool" where
  "markers_mismatch bytes =
     (let header = take 2 bytes; trailer = drop (length bytes - 1) bytes
      in \<not> str_startswith header [CHR 0x80] \<or> trailer \<noteq> ''.'')"

definition serialize_trie ::
  "('c TrieNode \<Rightarrow> error + string) \<Rightarrow> 'c TrieNode \<Rightarrow> error + string \<times> bool" where
  "serialize_trie dump root =
     (case dump root of
        Inl e \<Rightarrow> if is_Exception e then Inl (SystemExit 1) else Inl e
      | Inr bytes \<Rightarrow>
          if bytes = [] then Inl (SystemExit 1)
          else Inr (bytes, markers_mismatch bytes))"

text \<open>
  What a run has produced when it ends: the text written to the output file, the trie
  built, the bytes of the trie file, and whether the integrity warning was printed.
\<close>

record run_state =
  word_list :: "string option"
  trie :: "char TrieNode option"
  trie_file :: "string option"
  integrity_warning :: bool

definition initial_state :: run_state where
  "initial_state =
     \<lparr>word_list = None, trie = None, trie_file = None, integrity_warning = False\<rparr>"

text \<open>
  Lines 426 to 490 as one function of the loaded sets. \<open>order\<close> is the order in which
  \<^verbatim>\<open>for w in total_union\<close> meets the words of the set (Python leaves it unspecified). The
  result is the exception that ended the run, if any, and what had been produced by then.
\<close>

definition aggregate_and_build ::
  "(string set \<Rightarrow> string list) \<Rightarrow> (char TrieNode \<Rightarrow> error + string) \<Rightarrow>
     string set list \<Rightarrow> string set \<Rightarrow> error option \<times> run_state" where
  "aggregate_and_build order dump sources omit_set =
     (case aggregate sources omit_set of
        Inl e \<Rightarrow> (Some e, initial_state)
      | Inr total_union \<Rightarrow>
          (let st1 = initial_state\<lparr>word_list := Some (write_word_list total_union)\<rparr>
           in case insert_all (order total_union) TrieNode_init of
                Inl e \<Rightarrow> (Some e, st1)
              | Inr root \<Rightarrow>
                  (let st2 = st1\<lparr>trie := Some root\<rparr>
                   in case serialize_trie dump root of
                        Inl e \<Rightarrow> (Some e, st2)
                      | Inr (bytes, warned) \<Rightarrow>
                          (None, st2\<lparr>trie_file := Some bytes,
                                     integrity_warning := warned\<rparr>))))"

text \<open>
  The world \<^verbatim>\<open>main\<close> runs in: its arguments, the files it reads, the outcomes of the
  external retrievals, the iteration order of sets and the library's pickler.
\<close>

record compile_world =
  omit_file :: "string option"
  omit_lines :: "string list option"
  dwyl_collected :: "error + string set"
  scowl_collected :: "error + string set"
  wordnet_collected :: "error + string set"
  wordfreq_collected :: "error + string set"
  linux_dict_file :: "string list option"
  moby_file :: "string option"
  moby_lines :: "string list option"
  set_order :: "string set \<Rightarrow> string list"
  pickle_dump :: "char TrieNode \<Rightarrow> error + string"

text \<open>
  Lines 408 to 423: the six loaders in their order. The \<^verbatim>\<open>try\<close> of \<^verbatim>\<open>main\<close> has only a
  \<^verbatim>\<open>finally\<close> clause, so the first exception ends the run.
\<close>

definition load_sources :: "compile_world \<Rightarrow> error + string set list" where
  "load_sources W =
     (case load_dwyl_words (dwyl_collected W) of
        Inl e \<Rightarrow> Inl e
      | Inr dwyl_set \<Rightarrow>
     (case load_scowl_words (scowl_collected W) of
        Inl e \<Rightarrow> Inl e
      | Inr scowl_set \<Rightarrow>
     (case load_wordnet_words (wordnet_collected W) of
        Inl e \<Rightarrow> Inl e
      | Inr wordnet_set \<Rightarrow>
     (case load_wordfreq_words (wordfreq_collected W) of
        Inl e \<Rightarrow> Inl e
      | Inr wordfreq_set \<Rightarrow>
     (case load_linux_dict_words (linux_dict_file W) of
        Inl e \<Rightarrow> Inl e
      | Inr linux_set \<Rightarrow>
     (case load_moby_words (moby_file W) (moby_lines W) of
        Inl e \<Rightarrow> Inl e
      | Inr moby_set \<Rightarrow>
          Inr [dwyl_set, scowl_set, wordnet_set, wordfreq_set, linux_set, moby_set]))))))"

text \<open>\<^verbatim>\<open>main\<close> (lines 363 to 496), from the omit file on.\<close>

definition main :: "compile_world \<Rightarrow> error option \<times> run_state" where
  "main W =
     (case (if truthy (omit_file W) then load_omit_words (omit_lines W) else Inr {}) of
        Inl e \<Rightarrow> (Some e, initial_state)
      | Inr omit_set \<Rightarrow>
          (case load_sources W of
             Inl e \<Rightarrow> (Some e, initial_state)
           | Inr sources \<Rightarrow>
               aggregate_and_build (set_order W) (pickle_dump W) sources omit_set))"

section \<open>The validator (validate\_words.py)\<close>

text \<open>
  \<^verbatim>\<open>load_words_to_validate\<close> (lines 68 to 101). The argument is the lines of the file, or
  None when \<^verbatim>\<open>os.path.isfile\<close> is false (\<^verbatim>\<open>sys.exit(1)\<close>). The result is the list
  \<^verbatim>\<open>words\<close> and, in order, the lines reported on stderr as skipped.
\<close>

fun validate_loop :: "string list \<Rightarrow> string list \<Rightarrow> string list \<Rightarrow> string list \<times> string list" where
  "validate_loop [] words skipped = (words, skipped)"
| "validate_loop (line # f) words skipped =
     (let original = str_rstrip_newlines line;
          w = str_lower (str_strip original)
      in if w = [] then validate_loop f words skipped
         else if \<not> str_isalpha w then validate_loop f words (skipped @ [original])
         else validate_loop f (words @ [w]) skipped)"

definition load_words_to_validate ::
  "string list option \<Rightarrow> error + string list \<times> string list" where
  "load_words_to_validate validate_file =
     (case validate_file of
        None \<Rightarrow> Inl (SystemExit 1)
      | Some f \<Rightarrow> Inr (validate_loop f [] []))"

text \<open>
  \<^verbatim>\<open>main\<close>, lines 160 to 173: every word is looked up; \<^verbatim>\<open>results\<close> is a dict from
  word to answer, and the two counters count the answers.
\<close>

fun check_loop ::
  "char TrieNode \<Rightarrow> string list \<Rightarrow> (string \<times> bool) list \<times> nat \<times> nat \<Rightarrow>
     error + (string \<times> bool) list \<times> nat \<times> nat" where
  "check_loop trie_root [] acc = Inr acc"
| "check_loop trie_root (w # words) (results, count_true, count_false) =
     (case is_in_trie trie_root w of
        Inl e \<Rightarrow> Inl e
      | Inr exists \<Rightarrow>
          check_loop trie_root words
            (dict_setitem results w exists,
             if exists then count_true + 1 else count_true,
             if exists then count_false else count_false + 1))"

text \<open>\<^verbatim>\<open>main\<close>, lines 150 to 178, for a trie that has been loaded.\<close>

definition validate_words ::
  "char TrieNode \<Rightarrow> string list option \<Rightarrow> error + (string \<times> bool) list \<times> nat \<times> nat" where
  "validate_words trie_root validate_file =
     (case load_words_to_validate validate_file of
        Inl e \<Rightarrow> Inl e
      | Inr (words, skipped) \<Rightarrow>
          if words = [] then Inl (SystemExit 1)
          else check_loop trie_root words ([], 0, 0))"

section \<open>Loading the trie file (validate\_words.py, load\_trie)\<close>




section \<open>The unpickling machine of the Python library\<close>













text \<open>
  The 64 bytes of a protocol 5 pickle of \<^verbatim>\<open>TrieNode()\<close>, a root with no children that
  is not a word: PROTO 5, FRAME 53, the class \<^verbatim>\<open>trie.TrieNode\<close> by STACK\_GLOBAL, NEWOBJ
  on the empty tuple, the state dict with \<^verbatim>\<open>children\<close> (an empty dict) and
  \<^verbatim>\<open>is_word\<close> (False), BUILD, STOP.
\<close>

definition empty_trie_pickle :: string where
  "empty_trie_pickle =
     [CHR 0x80, CHR 0x05, CHR 0x95, CHR 0x35, CHR 0x00, CHR 0x00, CHR 0x00, CHR 0x00,
      CHR 0x00, CHR 0x00, CHR 0x00] @
     [CHR 0x8C, CHR 0x04] @ ''trie'' @ [CHR 0x94] @
     [CHR 0x8C, CHR 0x08] @ ''TrieNode'' @ [CHR 0x94, CHR 0x93, CHR 0x94] @
     '')'' @ [CHR 0x81, CHR 0x94] @ ''}'' @ [CHR 0x94] @ ''('' @
     [CHR 0x8C, CHR 0x08] @ ''children'' @ [CHR 0x94] @ ''}'' @ [CHR 0x94] @
     [CHR 0x8C, CHR 0x07] @ ''is_word'' @ [CHR 0x94, CHR 0x89] @ ''ub.''"

section \<open>A run used as an example\<close>

text \<open>
  A world in which the SCOWL download raises; nothing is omitted, the dictionary file and
  the Moby file are absent.
\<close>

definition scowl_down :: compile_world where
  "scowl_down =
     \<lparr>omit_file = None, omit_lines = None,
      dwyl_collected = Inr {''cat''},
      scowl_collected = Inl (RuntimeError ''SCOWL download error''),
      wordnet_collected = Inr {''dog''}, wordfreq_collected = Inr {''dog''},
      linux_dict_file = None, moby_file = None, moby_lines = None,
      set_order = sorted_list_of_set,
      pickle_dump = (\<lambda>root. Inl (LibraryError ''OSError''))\<rparr>"

section \<open>Facts about dicts and the trie\<close>

lemma map_of_dict_setitem: "map_of (dict_setitem d k v) = (map_of d)(k \<mapsto> v)"
  by (induction d) auto

lemma dict_setitem_same: "map_of d k = Some v \<Longrightarrow> dict_setitem d k v = d"
  by (induction d) (auto split: if_splits)

lemma is_in_trie_fresh: "is_in_trie TrieNode_init w = Inr False"
  by (cases w) (simp_all add: dict_contains_def TrieNode_init_def)

lemma node_at_fresh: "p \<noteq> [] \<Longrightarrow> node_at TrieNode_init p = None"
  by (cases p) (simp_all add: TrieNode_init_def)

text \<open>The two shapes an insertion of a non-empty word can take.\<close>

lemma trie_insert_Cons_new:
  assumes "trie_insert (ch # w) t = Inr t'" and "map_of (children t) ch = None"
  obtains c' where "trie_insert w TrieNode_init = Inr c'"
    and "t' = TrieNode (dict_setitem (dict_setitem (children t) ch TrieNode_init) ch c') (is_word t)"
  using assms
  by (auto simp: dict_contains_def dict_getitem_def map_of_dict_setitem split: sum.splits)

lemma trie_insert_Cons_old:
  assumes "trie_insert (ch # w) t = Inr t'" and "map_of (children t) ch = Some child"
  obtains c' where "trie_insert w child = Inr c'"
    and "t' = TrieNode (dict_setitem (children t) ch c') (is_word t)"
  using assms
  by (auto simp: dict_contains_def dict_getitem_def split: sum.splits)

lemma trie_insert_total: "\<exists>t'. trie_insert w t = Inr t'"
proof (induction w arbitrary: t)
  case Nil
  show ?case by simp
next
  case (Cons ch w)
  show ?case
  proof (cases "map_of (children t) ch")
    case None
    from Cons[of TrieNode_init] obtain c' where "trie_insert w TrieNode_init = Inr c'"
      by blast
    with None show ?thesis
      by (simp add: dict_contains_def dict_getitem_def map_of_dict_setitem)
  next
    case (Some child)
    from Cons[of child] obtain c' where "trie_insert w child = Inr c'"
      by blast
    with Some show ?thesis
      by (simp add: dict_contains_def dict_getitem_def)
  qed
qed

lemma is_in_trie_total: "\<exists>b. is_in_trie t w = Inr b"
proof (induction w arbitrary: t)
  case Nil
  show ?case by simp
next
  case (Cons ch w)
  show ?case
  proof (cases "map_of (children t) ch")
    case None
    then show ?thesis by (auto simp: dict_contains_def)
  next
    case (Some child)
    with Cons[of child] show ?thesis
      by (simp add: dict_contains_def dict_getitem_def)
  qed
qed

lemma is_in_trie_insert:
  "trie_insert w t = Inr t' \<Longrightarrow>
     is_in_trie t' v = (if v = w then Inr True else is_in_trie t v)"
proof (induction w arbitrary: t t' v)
  case Nil
  then show ?case by (cases v) auto
next
  case (Cons ch w)
  show ?case
  proof (cases "map_of (children t) ch")
    case None
    from Cons.prems None obtain c' where c': "trie_insert w TrieNode_init = Inr c'"
      and t': "t' = TrieNode (dict_setitem (dict_setitem (children t) ch TrieNode_init) ch c')
                 (is_word t)"
      by (rule trie_insert_Cons_new)
    from Cons.IH[OF c'] have ih: "\<And>u. is_in_trie c' u = (if u = w then Inr True else Inr False)"
      by (simp add: is_in_trie_fresh)
    show ?thesis using None
      by (cases v) (auto simp: t' ih dict_contains_def dict_getitem_def map_of_dict_setitem)
  next
    case (Some child)
    from Cons.prems Some obtain c' where c': "trie_insert w child = Inr c'"
      and t': "t' = TrieNode (dict_setitem (children t) ch c') (is_word t)"
      by (rule trie_insert_Cons_old)
    note ih = Cons.IH[OF c']
    show ?thesis using Some
      by (cases v) (auto simp: t' ih dict_contains_def dict_getitem_def map_of_dict_setitem)
  qed
qed

lemma insert_all_lookup:
  "\<exists>root'. insert_all ws root = Inr root' \<and>
     (\<forall>v. is_in_trie root' v = (if v \<in> set ws then Inr True else is_in_trie root v))"
proof (induction ws arbitrary: root)
  case Nil
  show ?case by simp
next
  case (Cons w ws)
  obtain r1 where r1: "trie_insert w root = Inr r1"
    using trie_insert_total by blast
  from Cons[of r1] obtain r2 where r2: "insert_all ws r1 = Inr r2"
    and l2: "\<And>v. is_in_trie r2 v = (if v \<in> set ws then Inr True else is_in_trie r1 v)"
    by blast
  have "insert_all (w # ws) root = Inr r2"
    using r1 r2 by simp
  moreover have "\<forall>v. is_in_trie r2 v =
      (if v \<in> set (w # ws) then Inr True else is_in_trie root v)"
    using l2 is_in_trie_insert[OF r1] by simp
  ultimately show ?case by blast
qed

lemma build_trie_lookup:
  "\<exists>root. build_trie ws = Inr root \<and> (\<forall>v. is_in_trie root v = Inr (v \<in> set ws))"
  using insert_all_lookup[of ws TrieNode_init]
  by (auto simp: build_trie_def is_in_trie_fresh)

lemma is_in_trie_append:
  "is_in_trie t (p @ v) = (case node_at t p of None \<Rightarrow> Inr False | Some n \<Rightarrow> is_in_trie n v)"
  by (induction p arbitrary: t)
     (auto simp: dict_contains_def dict_getitem_def split: option.splits)

lemma is_in_trie_node_at:
  "is_in_trie t p = (case node_at t p of None \<Rightarrow> Inr False | Some n \<Rightarrow> Inr (is_word n))"
  using is_in_trie_append[of t p "[]"] by (simp split: option.splits)

lemma node_at_insert_off_path:
  "trie_insert w t = Inr t' \<Longrightarrow> \<not> prefix p w \<Longrightarrow> node_at t' p = node_at t p"
proof (induction w arbitrary: t t' p)
  case Nil
  then show ?case by (cases p) auto
next
  case (Cons ch w)
  from Cons.prems(2) obtain c ps where p: "p = c # ps"
    by (cases p) auto
  show ?case
  proof (cases "map_of (children t) ch")
    case None
    from Cons.prems(1) None obtain c' where c': "trie_insert w TrieNode_init = Inr c'"
      and t': "t' = TrieNode (dict_setitem (dict_setitem (children t) ch TrieNode_init) ch c')
                 (is_word t)"
      by (rule trie_insert_Cons_new)
    show ?thesis
    proof (cases "c = ch")
      case True
      with Cons.prems(2) p have np: "\<not> prefix ps w" by simp
      then have "ps \<noteq> []" by auto
      with Cons.IH[OF c' np] None True show ?thesis
        by (simp add: p t' map_of_dict_setitem node_at_fresh)
    next
      case False
      then show ?thesis by (simp add: p t' map_of_dict_setitem)
    qed
  next
    case (Some child)
    from Cons.prems(1) Some obtain c' where c': "trie_insert w child = Inr c'"
      and t': "t' = TrieNode (dict_setitem (children t) ch c') (is_word t)"
      by (rule trie_insert_Cons_old)
    show ?thesis
    proof (cases "c = ch")
      case True
      with Cons.prems(2) p have np: "\<not> prefix ps w" by simp
      with Cons.IH[OF c' np] Some True show ?thesis
        by (simp add: p t' map_of_dict_setitem)
    next
      case False
      then show ?thesis by (simp add: p t' map_of_dict_setitem)
    qed
  qed
qed

lemma node_at_insert_flag:
  "trie_insert w t = Inr t' \<Longrightarrow> p \<noteq> w \<Longrightarrow> node_at t p = Some n \<Longrightarrow>
     \<exists>n'. node_at t' p = Some n' \<and> is_word n' = is_word n"
proof (induction w arbitrary: t t' p)
  case Nil
  then show ?case by (cases p) auto
next
  case (Cons ch w)
  show ?case
  proof (cases "map_of (children t) ch")
    case None
    from Cons.prems(1) None obtain c' where c': "trie_insert w TrieNode_init = Inr c'"
      and t': "t' = TrieNode (dict_setitem (dict_setitem (children t) ch TrieNode_init) ch c')
                 (is_word t)"
      by (rule trie_insert_Cons_new)
    show ?thesis
    proof (cases p)
      case Nil
      with Cons.prems show ?thesis by (simp add: t')
    next
      case (Cons c ps)
      with Cons.prems(3) None have "c \<noteq> ch"
        by (auto split: option.splits)
      with Cons Cons.prems(3) show ?thesis
        by (simp add: t' map_of_dict_setitem)
    qed
  next
    case (Some child)
    from Cons.prems(1) Some obtain c' where c': "trie_insert w child = Inr c'"
      and t': "t' = TrieNode (dict_setitem (children t) ch c') (is_word t)"
      by (rule trie_insert_Cons_old)
    show ?thesis
    proof (cases p)
      case Nil
      with Cons.prems show ?thesis by (simp add: t')
    next
      case (Cons c ps)
      show ?thesis
      proof (cases "c = ch")
        case True
        with Cons Cons.prems(2) have "ps \<noteq> w" by simp
        moreover from Cons True Some Cons.prems(3) have "node_at child ps = Some n"
          by simp
        ultimately obtain n' where "node_at c' ps = Some n'" "is_word n' = is_word n"
          using Cons.IH[OF c'] by blast
        with Cons True show ?thesis
          by (simp add: t' map_of_dict_setitem)
      next
        case False
        with Cons Cons.prems(3) show ?thesis
          by (simp add: t' map_of_dict_setitem)
      qed
    qed
  qed
qed

lemma trie_insert_idem: "trie_insert w t = Inr t' \<Longrightarrow> trie_insert w t' = Inr t'"
proof (induction w arbitrary: t t')
  case Nil
  then show ?case by auto
next
  case (Cons ch w)
  have step: "trie_insert (ch # w) t' = Inr t'"
    if c': "trie_insert w c = Inr c'" and t': "t' = TrieNode (dict_setitem cs ch c') b"
    for c c' cs b
  proof -
    have m: "map_of (children t') ch = Some c'"
      by (simp add: t' map_of_dict_setitem)
    have "dict_setitem (children t') ch c' = children t'"
      by (rule dict_setitem_same[OF m])
    with m Cons.IH[OF c'] show ?thesis
      by (simp add: dict_contains_def dict_getitem_def)
  qed
  show ?case
  proof (cases "map_of (children t) ch")
    case None
    from Cons.prems None obtain c' where "trie_insert w TrieNode_init = Inr c'"
      and "t' = TrieNode (dict_setitem (dict_setitem (children t) ch TrieNode_init) ch c')
                 (is_word t)"
      by (rule trie_insert_Cons_new)
    then show ?thesis by (rule step)
  next
    case (Some child)
    from Cons.prems Some obtain c' where "trie_insert w child = Inr c'"
      and "t' = TrieNode (dict_setitem (children t) ch c') (is_word t)"
      by (rule trie_insert_Cons_old)
    then show ?thesis by (rule step)
  qed
qed

lemma map_of_child_labels:
  assumes "map_of (children t) c = Some child"
  shows "c \<in> set_TrieNode t \<and> set_TrieNode child \<subseteq> set_TrieNode t"
proof -
  from assms have m: "(c, child) \<in> set (children t)"
    by (rule map_of_SomeD)
  obtain cs b where t: "t = TrieNode cs b"
    by (cases t)
  from m t show ?thesis
    by (force simp: TrieNode.set)
qed

lemma is_in_trie_foreign_char:
  "c \<in> set w \<Longrightarrow> c \<notin> set_TrieNode t \<Longrightarrow> is_in_trie t w = Inr False"
proof (induction w arbitrary: t)
  case Nil
  then show ?case by simp
next
  case (Cons ch w)
  show ?case
  proof (cases "map_of (children t) ch")
    case None
    then show ?thesis by (simp add: dict_contains_def)
  next
    case (Some child)
    from map_of_child_labels[OF Some] Cons.prems
    have "c \<in> set w" "c \<notin> set_TrieNode child" by auto
    from Cons.IH[OF this] Some show ?thesis
      by (simp add: dict_contains_def dict_getitem_def)
  qed
qed

section \<open>Facts about aggregation and the loaders\<close>

lemma union_loop_eq: "union_loop sources acc = acc \<union> \<Union> (set sources)"
  by (induction sources arbitrary: acc) auto

lemma aggregate_eq:
  "aggregate sources omit_set =
     (if \<Union> (set sources) = {}
      then Inl (RuntimeError ''Final union is empty; no words were loaded from any source.'')
      else Inr (\<Union> (set sources) - omit_set))"
  by (auto simp: aggregate_def union_loop_eq Let_def)

lemma write_word_list_sorted:
  assumes "finite V"
  shows "\<exists>ws. sorted_wrt (<) ws \<and> set ws = V \<and>
           write_word_list V = concat (map (\<lambda>w. w @ [CHR 0x0A]) ws)"
proof -
  have "sorted_wrt (<) (sorted_list_of_set V)"
    by (rule strict_sorted_list_of_set)
  moreover have "set (sorted_list_of_set V) = V"
    using assms by simp
  ultimately show ?thesis
    unfolding write_word_list_def by blast
qed

lemma aggregate_and_build_word_list:
  "aggregate sources omit_set = Inr V \<Longrightarrow>
     word_list (snd (aggregate_and_build order dump sources omit_set)) =
       Some (write_word_list V)"
  by (simp add: aggregate_and_build_def initial_state_def Let_def
        split: sum.splits prod.splits)

lemma aggregate_and_build_trie:
  assumes "aggregate sources omit_set = Inr V"
  shows "\<exists>root. insert_all (order V) TrieNode_init = Inr root \<and>
           trie (snd (aggregate_and_build order dump sources omit_set)) = Some root"
proof -
  obtain root where "insert_all (order V) TrieNode_init = Inr root"
    using insert_all_lookup[of "order V" TrieNode_init] by blast
  with assms show ?thesis
    by (simp add: aggregate_and_build_def initial_state_def Let_def
          split: sum.splits prod.splits)
qed

text \<open>
  The trie a run builds answers membership in the vocabulary, whatever the order in which
  the set is iterated.
\<close>

lemma aggregate_and_build_membership:
  assumes "aggregate sources omit_set = Inr V" and "set (order V) = V"
  shows "\<exists>root. trie (snd (aggregate_and_build order dump sources omit_set)) = Some root \<and>
           (\<forall>w. is_in_trie root w = Inr (w \<in> V))"
proof -
  obtain root where r: "insert_all (order V) TrieNode_init = Inr root"
    and l: "\<And>v. is_in_trie root v =
              (if v \<in> set (order V) then Inr True else is_in_trie TrieNode_init v)"
    using insert_all_lookup[of "order V" TrieNode_init] by blast
  from aggregate_and_build_trie[OF assms(1), of order dump] r
  have "trie (snd (aggregate_and_build order dump sources omit_set)) = Some root"
    by auto
  moreover have "\<forall>w. is_in_trie root w = Inr (w \<in> V)"
    using l assms(2) by (simp add: is_in_trie_fresh)
  ultimately show ?thesis by blast
qed

lemma serialize_trie_written:
  "dump root = Inr bytes \<Longrightarrow> bytes \<noteq> [] \<Longrightarrow>
     serialize_trie dump root = Inr (bytes, markers_mismatch bytes)"
  by (simp add: serialize_trie_def)


lemma linux_dict_loop_eq:
  "linux_dict_loop f acc =
     acc \<union> {w. \<exists>line \<in> set f. w = str_lower (str_strip line) \<and> w \<noteq> [] \<and> is_pure_alpha w}"
  by (induction f arbitrary: acc) (auto simp: Let_def)

lemma load_linux_dict_words_total: "\<exists>S. load_linux_dict_words d = Inr S"
  by (cases d) (simp_all add: load_linux_dict_words_def Let_def)

lemma load_linux_dict_words_no_entry:
  "\<forall>line \<in> set f. \<not> is_pure_alpha (str_lower (str_strip line)) \<Longrightarrow>
     load_linux_dict_words (Some f) = Inr {}"
  by (auto simp: load_linux_dict_words_def Let_def linux_dict_loop_eq)

lemma load_sources_Inl:
  "load_sources W = Inl e \<Longrightarrow>
     load_dwyl_words (dwyl_collected W) = Inl e \<or>
     load_scowl_words (scowl_collected W) = Inl e \<or>
     load_wordnet_words (wordnet_collected W) = Inl e \<or>
     load_wordfreq_words (wordfreq_collected W) = Inl e \<or>
     load_moby_words (moby_file W) (moby_lines W) = Inl e"
  using load_linux_dict_words_total[of "linux_dict_file W"]
  by (auto simp: load_sources_def split: sum.splits)

lemma load_sources_fails:
  "load_dwyl_words (dwyl_collected W) = Inl e \<or>
     load_scowl_words (scowl_collected W) = Inl e \<or>
     load_wordnet_words (wordnet_collected W) = Inl e \<or>
     load_wordfreq_words (wordfreq_collected W) = Inl e \<or>
     load_moby_words (moby_file W) (moby_lines W) = Inl e \<Longrightarrow>
   \<exists>e'. load_sources W = Inl e'"
  by (auto simp: load_sources_def split: sum.splits)

lemma main_load_failure:
  "load_sources W = Inl e \<Longrightarrow> truthy (omit_file W) \<longrightarrow> omit_lines W \<noteq> None \<Longrightarrow>
     main W = (Some e, initial_state)"
  by (auto simp: main_def load_omit_words_def split: option.splits)

text \<open>
  In \<^verbatim>\<open>main\<close> the sets that reach the union are never all empty: the four required
  loaders raise on their own when they collect nothing.
\<close>

lemma load_sources_nonempty:
  "load_sources W = Inr sources \<Longrightarrow> \<Union> (set sources) \<noteq> {}"
  by (auto simp: load_sources_def load_dwyl_words_def split: sum.splits if_splits)

section \<open>Facts about loading the trie file\<close>











lemma markers_match_empty_trie: "\<not> markers_mismatch empty_trie_pickle"
  by code_simp



lemma lower_strip_Cat7: "str_lower (str_strip ''Cat 7'') = ''cat 7''"
  by code_simp

lemma not_pure_alpha_cat7: "\<not> is_pure_alpha ''cat 7''"
  by code_simp

lemma moby_loop_no_section: "moby_loop False [''Moby words'', ''Dog''] {} = {}"
  by code_simp

lemma write_word_list_cat_dog:
  "write_word_list {''cat'', ''dog''} = ''cat'' @ [CHR 0x0A] @ ''dog'' @ [CHR 0x0A]"
  by (simp add: write_word_list_def insert_commute)

section \<open>The trie: membership, idempotence, robustness, frame\<close>

text \<open>
  Claim C1. A trie built by inserting the words of a vocabulary into a fresh root answers
  the membership query with True exactly on the words of the vocabulary: the build
  succeeds, and for every string \<open>w\<close> the query returns \<open>w \<in> set ws\<close>, where \<open>ws\<close> lists
  the vocabulary in the order of insertion. In particular a proper prefix of an inserted
  word that is not itself in the vocabulary is answered False. In terms of the tree: the
  paths from the root that end in a node with the word flag set are exactly the words of
  the vocabulary. The statement needs no assumption on the words (they may even repeat),
  so it covers the canonical vocabularies of non-empty a-z words inserted once each.
\<close>

theorem build_trie_membership:
  "\<exists>root. build_trie ws = Inr root \<and>
     (\<forall>w. is_in_trie root w = Inr (w \<in> set ws)) \<and>
     (\<forall>w s. w @ s \<in> set ws \<and> w \<notin> set ws \<longrightarrow> is_in_trie root w = Inr False) \<and>
     (\<forall>w. (\<exists>n. node_at root w = Some n \<and> is_word n) \<longleftrightarrow> w \<in> set ws)"
proof -
  obtain root where r: "build_trie ws = Inr root"
    and l: "\<And>v. is_in_trie root v = Inr (v \<in> set ws)"
    using build_trie_lookup[of ws] by blast
  from l have p: "\<forall>w s. w @ s \<in> set ws \<and> w \<notin> set ws \<longrightarrow> is_in_trie root w = Inr False"
    by simp
  have n: "(\<exists>n. node_at root w = Some n \<and> is_word n) \<longleftrightarrow> w \<in> set ws" for w
    using l[of w] by (auto simp: is_in_trie_node_at split: option.splits)
  from r l p n show ?thesis by blast
qed

text \<open>The vocabulary cat, car: the prefix ca is rejected, cat is found, dog is not.\<close>

theorem build_trie_membership_witness:
  "\<exists>root. build_trie [''cat'', ''car''] = Inr root \<and>
     ''ca'' @ ''t'' \<in> set [''cat'', ''car''] \<and> ''ca'' \<notin> set [''cat'', ''car''] \<and>
     is_in_trie root ''ca'' = Inr False \<and> is_in_trie root ''cat'' = Inr True \<and>
     is_in_trie root ''dog'' = Inr False"
  using build_trie_membership[of "[''cat'', ''car'']"]
  by (simp add: build_trie_def TrieNode_init_def dict_contains_def dict_getitem_def)

text \<open>
  Claim C7. Insertion is idempotent and cannot fail: for every trie \<open>t\<close> and word \<open>w\<close>,
  \<open>insert\<close> returns normally (no exception; the only value it yields is the updated
  tree), and inserting \<open>w\<close> a second time returns normally again with the very same tree,
  which is therefore indistinguishable from the first under the membership query for every
  query string.
\<close>

theorem trie_insert_idempotent:
  "\<exists>t1. trie_insert w t = Inr t1 \<and>
     (\<exists>t2. trie_insert w t1 = Inr t2 \<and> t2 = t1 \<and> (\<forall>v. is_in_trie t2 v = is_in_trie t1 v))"
proof -
  obtain t1 where t1: "trie_insert w t = Inr t1"
    using trie_insert_total by blast
  from trie_insert_idem[OF t1] t1 show ?thesis by simp
qed

text \<open>Inserting ab into the trie holding a, once and twice.\<close>

theorem trie_insert_idempotent_witness:
  "trie_insert ''ab'' (TrieNode [(CHR ''a'', TrieNode [] True)] False) =
     Inr (TrieNode [(CHR ''a'', TrieNode [(CHR ''b'', TrieNode [] True)] True)] False) \<and>
   trie_insert ''ab''
       (TrieNode [(CHR ''a'', TrieNode [(CHR ''b'', TrieNode [] True)] True)] False) =
     Inr (TrieNode [(CHR ''a'', TrieNode [(CHR ''b'', TrieNode [] True)] True)] False)"
  using trie_insert_idempotent[of "''ab''" "TrieNode [(CHR ''a'', TrieNode [] True)] False"]
  by (simp add: TrieNode_init_def dict_contains_def dict_getitem_def)

text \<open>
  Claim C8. The membership query is safe on every trie and every argument string: it
  always returns a boolean, never an exception. It returns False as soon as a character
  has no matching child at the node reached (and so whenever the string holds a character
  that labels no edge of the trie at all); on the empty string it returns the root's word
  flag, and that flag is False in every trie built from non-empty words only.
\<close>

theorem is_in_trie_safe:
  "(\<exists>b. is_in_trie (t :: 'c TrieNode) w = Inr b) \<and>
   (\<forall>p n c s. w = p @ c # s \<and> node_at t p = Some n \<and> \<not> dict_contains c (children n)
      \<longrightarrow> is_in_trie t w = Inr False) \<and>
   (\<forall>c. c \<in> set w \<and> c \<notin> set_TrieNode t \<longrightarrow> is_in_trie t w = Inr False) \<and>
   is_in_trie t [] = Inr (is_word t) \<and>
   (\<forall>ws (root :: 'c TrieNode).
      build_trie ws = Inr root \<and> [] \<notin> set ws \<longrightarrow> is_in_trie root [] = Inr False)"
proof -
  have a: "\<exists>b. is_in_trie t w = Inr b"
    by (rule is_in_trie_total)
  have b: "\<forall>p n c s. w = p @ c # s \<and> node_at t p = Some n \<and> \<not> dict_contains c (children n)
      \<longrightarrow> is_in_trie t w = Inr False"
    by (auto simp: is_in_trie_append)
  have c: "\<forall>c. c \<in> set w \<and> c \<notin> set_TrieNode t \<longrightarrow> is_in_trie t w = Inr False"
    by (auto intro: is_in_trie_foreign_char)
  have d: "\<forall>ws (root :: 'c TrieNode).
      build_trie ws = Inr root \<and> [] \<notin> set ws \<longrightarrow> is_in_trie root [] = Inr False"
  proof (intro allI impI)
    fix ws and root :: "'c TrieNode"
    assume h: "build_trie ws = Inr root \<and> [] \<notin> set ws"
    obtain r where r: "build_trie ws = Inr r"
      and l: "\<And>v. is_in_trie r v = Inr (v \<in> set ws)"
      using build_trie_lookup[of ws] by blast
    from r h have "r = root" by simp
    with l[of "[]"] h show "is_in_trie root [] = Inr False" by simp
  qed
  from a b c d show ?thesis by simp
qed

text \<open>The trie built from the word a, asked for a7 and for the empty string.\<close>

theorem is_in_trie_safe_witness:
  "is_in_trie (TrieNode [(CHR ''a'', TrieNode [] True)] False) ''a7'' = Inr False \<and>
   ''a7'' = ''a'' @ CHR ''7'' # [] \<and>
   node_at (TrieNode [(CHR ''a'', TrieNode [] True)] False) ''a'' = Some (TrieNode [] True) \<and>
   \<not> dict_contains CHR ''7'' (children (TrieNode [] True :: char TrieNode)) \<and>
   CHR ''7'' \<in> set ''a7'' \<and>
   CHR ''7'' \<notin> set_TrieNode (TrieNode [(CHR ''a'', TrieNode [] True)] False) \<and>
   is_in_trie (TrieNode [(CHR ''a'', TrieNode [] True)] False) [] = Inr False \<and>
   build_trie [''a''] = Inr (TrieNode [(CHR ''a'', TrieNode [] True)] False) \<and>
   [] \<notin> set [''a'']"
  using is_in_trie_safe[of "TrieNode [(CHR ''a'', TrieNode [] True)] False" "''a7''"]
  by (simp add: build_trie_def TrieNode_init_def dict_contains_def dict_getitem_def)

text \<open>
  Claim C10. Insertion changes membership only at the inserted word: after
  \<open>insert(w)\<close> the query for every \<open>v \<noteq> w\<close> gives what it gave before (and the query
  for \<open>w\<close> gives True). Structurally, every node whose path from the root is not a prefix
  of \<open>w\<close> is left exactly as it was, children and flag; every node that existed keeps its
  flag unless its path is \<open>w\<close> itself; and a node that is new lies on the path of \<open>w\<close>.
\<close>

theorem trie_insert_frame:
  assumes "trie_insert w t = Inr t'"
  shows "(\<forall>v. v \<noteq> w \<longrightarrow> is_in_trie t' v = is_in_trie t v) \<and>
         is_in_trie t' w = Inr True \<and>
         (\<forall>p. \<not> prefix p w \<longrightarrow> node_at t' p = node_at t p) \<and>
         (\<forall>p n. p \<noteq> w \<and> node_at t p = Some n \<longrightarrow>
            (\<exists>n'. node_at t' p = Some n' \<and> is_word n' = is_word n)) \<and>
         (\<forall>p n'. node_at t' p = Some n' \<and> node_at t p = None \<longrightarrow> prefix p w)"
proof -
  have a: "\<forall>v. v \<noteq> w \<longrightarrow> is_in_trie t' v = is_in_trie t v"
    using is_in_trie_insert[OF assms] by simp
  have a': "is_in_trie t' w = Inr True"
    using is_in_trie_insert[OF assms] by simp
  have b: "\<forall>p. \<not> prefix p w \<longrightarrow> node_at t' p = node_at t p"
    using node_at_insert_off_path[OF assms] by blast
  have c: "\<forall>p n. p \<noteq> w \<and> node_at t p = Some n \<longrightarrow>
            (\<exists>n'. node_at t' p = Some n' \<and> is_word n' = is_word n)"
    using node_at_insert_flag[OF assms] by blast
  have d: "\<forall>p n'. node_at t' p = Some n' \<and> node_at t p = None \<longrightarrow> prefix p w"
    using b by (metis option.distinct(1))
  from a a' b c d show ?thesis by simp
qed

text \<open>Inserting ab into the trie holding a and c.\<close>

theorem trie_insert_frame_witness:
  "trie_insert ''ab''
       (TrieNode [(CHR ''a'', TrieNode [] True), (CHR ''c'', TrieNode [] True)] False) =
     Inr (TrieNode [(CHR ''a'', TrieNode [(CHR ''b'', TrieNode [] True)] True),
                    (CHR ''c'', TrieNode [] True)] False) \<and>
   is_in_trie (TrieNode [(CHR ''a'', TrieNode [(CHR ''b'', TrieNode [] True)] True),
                    (CHR ''c'', TrieNode [] True)] False) ''a'' = Inr True \<and>
   ''a'' \<noteq> ''ab'' \<and> \<not> prefix ''c'' ''ab'' \<and>
   node_at (TrieNode [(CHR ''a'', TrieNode [(CHR ''b'', TrieNode [] True)] True),
                    (CHR ''c'', TrieNode [] True)] False) ''c'' = Some (TrieNode [] True) \<and>
   node_at (TrieNode [(CHR ''a'', TrieNode [] True), (CHR ''c'', TrieNode [] True)] False)
       ''ab'' = None \<and>
   prefix ''ab'' ''ab''"
  using trie_insert_frame[of "''ab''"
      "TrieNode [(CHR ''a'', TrieNode [] True), (CHR ''c'', TrieNode [] True)] False"
      "TrieNode [(CHR ''a'', TrieNode [(CHR ''b'', TrieNode [] True)] True),
                 (CHR ''c'', TrieNode [] True)] False"]
  by (simp add: TrieNode_init_def dict_contains_def dict_getitem_def)


section \<open>Aggregation: union, omission, the word list, the empty union\<close>

text \<open>
  Claim C3. For every finite collection of word sets and every omit set, provided the
  union of the sources is not empty, aggregation returns exactly the union of the sources
  minus the omit set, and the text written to the output file lists exactly those words,
  each followed by a newline, in strictly increasing lexicographic order (so each once).
\<close>

theorem aggregate_union_minus_omit:
  assumes "\<forall>S \<in> set sources. finite S" and "\<Union> (set sources) \<noteq> {}"
  shows "aggregate sources omit_set = Inr (\<Union> (set sources) - omit_set) \<and>
         word_list (snd (aggregate_and_build order dump sources omit_set)) =
           Some (write_word_list (\<Union> (set sources) - omit_set)) \<and>
         (\<exists>ws. sorted_wrt (<) ws \<and> set ws = \<Union> (set sources) - omit_set \<and>
            write_word_list (\<Union> (set sources) - omit_set) =
              concat (map (\<lambda>w. w @ [CHR 0x0A]) ws))"
proof -
  have a: "aggregate sources omit_set = Inr (\<Union> (set sources) - omit_set)"
    using assms(2) by (simp add: aggregate_eq)
  have "finite (\<Union> (set sources) - omit_set)"
    using assms(1) by auto
  from write_word_list_sorted[OF this] aggregate_and_build_word_list[OF a] a
  show ?thesis by simp
qed

text \<open>The scenario of the specification: dog, cat and cat, fish, without fish.\<close>

theorem aggregate_union_minus_omit_witness:
  "finite {''dog'', ''cat''} \<and> finite {''cat'', ''fish''} \<and>
   \<Union> (set [{''dog'', ''cat''}, {''cat'', ''fish''}]) \<noteq> {} \<and>
   aggregate [{''dog'', ''cat''}, {''cat'', ''fish''}] {''fish''} = Inr {''cat'', ''dog''} \<and>
   write_word_list {''cat'', ''dog''} = ''cat'' @ [CHR 0x0A] @ ''dog'' @ [CHR 0x0A]"
proof -
  have e: "\<Union> (set [{''dog'', ''cat''}, {''cat'', ''fish''}]) - {''fish''} = {''cat'', ''dog''}"
    by auto
  have f: "\<forall>S \<in> set [{''dog'', ''cat''}, {''cat'', ''fish''}]. finite S"
    by simp
  have n: "\<Union> (set [{''dog'', ''cat''}, {''cat'', ''fish''}]) \<noteq> {}"
    by simp
  from aggregate_union_minus_omit[OF f n, of "{''fish''}"] e write_word_list_cat_dog f n
  show ?thesis by simp
qed

text \<open>
  Claim C4, as the specification states it, fails: with the single source cat and the
  omit set cat the canonical vocabulary is empty, and aggregation returns the empty set
  instead of raising.
\<close>

theorem omit_everything_counterexample:
  "\<Union> (set [{''cat''}]) - {''cat''} = {} \<and> aggregate [{''cat''}] {''cat''} = Inr {}"
  by (simp add: aggregate_eq)

text \<open>
  Claim C4, amended. Whenever the union of all source word sets is empty, aggregation
  fails with a fatal RuntimeError and the run ends there: no word list has been written,
  no trie built, no trie file written. The test is made before the omit set is applied:
  when the union is not empty aggregation does not fail, even if the omit set removes
  every word. The run then writes the vocabulary (the union minus the omit set, empty or
  not) as the word list and builds the trie by inserting the words of that vocabulary, in
  the order the set is iterated, into a fresh root; that trie answers the membership query
  with membership in the vocabulary.
\<close>

theorem empty_union_is_fatal:
  "(\<Union> (set sources) = {} \<longrightarrow>
      aggregate sources omit_set =
        Inl (RuntimeError ''Final union is empty; no words were loaded from any source.'') \<and>
      aggregate_and_build order dump sources omit_set =
        (Some (RuntimeError ''Final union is empty; no words were loaded from any source.''),
         initial_state) \<and>
      word_list initial_state = None \<and> trie initial_state = None \<and>
      trie_file initial_state = None) \<and>
   (\<Union> (set sources) \<noteq> {} \<longrightarrow>
      aggregate sources omit_set = Inr (\<Union> (set sources) - omit_set) \<and>
      word_list (snd (aggregate_and_build order dump sources omit_set)) =
        Some (write_word_list (\<Union> (set sources) - omit_set)) \<and>
      (\<exists>root. build_trie (order (\<Union> (set sources) - omit_set)) = Inr root \<and>
         trie (snd (aggregate_and_build order dump sources omit_set)) = Some root \<and>
         (set (order (\<Union> (set sources) - omit_set)) = \<Union> (set sources) - omit_set \<longrightarrow>
            (\<forall>w. is_in_trie root w = Inr (w \<in> \<Union> (set sources) - omit_set)))))"
proof (intro conjI impI)
  assume "\<Union> (set sources) = {}"
  then show a: "aggregate sources omit_set =
        Inl (RuntimeError ''Final union is empty; no words were loaded from any source.'')"
    by (simp add: aggregate_eq)
  then show "aggregate_and_build order dump sources omit_set =
        (Some (RuntimeError ''Final union is empty; no words were loaded from any source.''),
         initial_state)"
    by (simp add: aggregate_and_build_def)
  show "word_list initial_state = None" "trie initial_state = None"
    "trie_file initial_state = None"
    by (simp_all add: initial_state_def)
next
  assume "\<Union> (set sources) \<noteq> {}"
  then show a: "aggregate sources omit_set = Inr (\<Union> (set sources) - omit_set)"
    by (simp add: aggregate_eq)
  show "word_list (snd (aggregate_and_build order dump sources omit_set)) =
        Some (write_word_list (\<Union> (set sources) - omit_set))"
    by (rule aggregate_and_build_word_list[OF a])
  obtain root where r: "insert_all (order (\<Union> (set sources) - omit_set)) TrieNode_init = Inr root"
    and t: "trie (snd (aggregate_and_build order dump sources omit_set)) = Some root"
    using aggregate_and_build_trie[OF a, of order dump] by blast
  have b: "build_trie (order (\<Union> (set sources) - omit_set)) = Inr root"
    using r by (simp add: build_trie_def)
  obtain root' where r': "build_trie (order (\<Union> (set sources) - omit_set)) = Inr root'"
    and l: "\<And>v. is_in_trie root' v = Inr (v \<in> set (order (\<Union> (set sources) - omit_set)))"
    using build_trie_lookup[of "order (\<Union> (set sources) - omit_set)"] by blast
  from b r' have "root' = root" by simp
  with l have m: "set (order (\<Union> (set sources) - omit_set)) = \<Union> (set sources) - omit_set \<longrightarrow>
            (\<forall>w. is_in_trie root w = Inr (w \<in> \<Union> (set sources) - omit_set))"
    by simp
  from b t m
  show "\<exists>root. build_trie (order (\<Union> (set sources) - omit_set)) = Inr root \<and>
         trie (snd (aggregate_and_build order dump sources omit_set)) = Some root \<and>
         (set (order (\<Union> (set sources) - omit_set)) = \<Union> (set sources) - omit_set \<longrightarrow>
            (\<forall>w. is_in_trie root w = Inr (w \<in> \<Union> (set sources) - omit_set)))"
    by blast
qed

text \<open>
  Two empty sources; and the source cat with the omit set cat, in a run that iterates sets
  in sorted order and whose pickler fails: the empty word list has been written and the
  empty trie built.
\<close>

theorem empty_union_is_fatal_witness:
  "\<Union> (set [{}, {} :: string set]) = {} \<and>
   aggregate [{}, {} :: string set] {''cat''} =
     Inl (RuntimeError ''Final union is empty; no words were loaded from any source.'') \<and>
   \<Union> (set [{''cat''}]) \<noteq> {} \<and>
   aggregate [{''cat''}] {''cat''} = Inr {} \<and>
   set (sorted_list_of_set ({} :: string set)) = {} \<and>
   word_list (snd (aggregate_and_build sorted_list_of_set
       (\<lambda>root. Inl (LibraryError ''OSError'')) [{''cat''}] {''cat''})) = Some [] \<and>
   trie (snd (aggregate_and_build sorted_list_of_set
       (\<lambda>root. Inl (LibraryError ''OSError'')) [{''cat''}] {''cat''})) = Some (TrieNode [] False) \<and>
   is_in_trie (TrieNode [] False) ''cat'' = Inr False"
  using empty_union_is_fatal[of "[{}, {}]" "{''cat''}"]
        empty_union_is_fatal[of "[{''cat''}]" "{''cat''}" sorted_list_of_set
          "\<lambda>root. Inl (LibraryError ''OSError'')"]
  by (simp add: write_word_list_def build_trie_def TrieNode_init_def dict_contains_def)

section \<open>The sources: which failures are fatal\<close>

text \<open>
  Claim C9. A failure of any loader other than the one of /usr/share/dict/words makes the
  loading fail, the failure of the loading is the exception of one of those loaders, and
  \<open>main\<close> ends with that very exception (nothing written, nothing built) once the omit
  file has been read. The loader of /usr/share/dict/words never raises: a missing file
  gives the empty set, and so does a file without a single valid entry. The Moby loader
  gives the empty set without error when no file is supplied; when one is supplied it
  raises RuntimeError if the file does not exist or if no word is found in it.
\<close>

theorem source_failure_policy:
  "(\<forall>e. load_dwyl_words (dwyl_collected W) = Inl e \<or>
        load_scowl_words (scowl_collected W) = Inl e \<or>
        load_wordnet_words (wordnet_collected W) = Inl e \<or>
        load_wordfreq_words (wordfreq_collected W) = Inl e \<or>
        load_moby_words (moby_file W) (moby_lines W) = Inl e
        \<longrightarrow> (\<exists>e'. load_sources W = Inl e')) \<and>
   (\<forall>e. load_sources W = Inl e \<longrightarrow>
        load_dwyl_words (dwyl_collected W) = Inl e \<or>
        load_scowl_words (scowl_collected W) = Inl e \<or>
        load_wordnet_words (wordnet_collected W) = Inl e \<or>
        load_wordfreq_words (wordfreq_collected W) = Inl e \<or>
        load_moby_words (moby_file W) (moby_lines W) = Inl e) \<and>
   (\<forall>e. load_sources W = Inl e \<and> (truthy (omit_file W) \<longrightarrow> omit_lines W \<noteq> None)
        \<longrightarrow> main W = (Some e, initial_state)) \<and>
   load_linux_dict_words None = Inr {} \<and>
   (\<forall>f. (\<forall>line \<in> set f. \<not> is_pure_alpha (str_lower (str_strip line)))
        \<longrightarrow> load_linux_dict_words (Some f) = Inr {}) \<and>
   (\<forall>d. \<exists>S. load_linux_dict_words d = Inr S) \<and>
   (\<forall>a c. \<not> truthy a \<longrightarrow> load_moby_words a c = Inr {}) \<and>
   (\<forall>a. truthy a \<longrightarrow> (\<exists>m. load_moby_words a None = Inl (RuntimeError m))) \<and>
   (\<forall>a f. truthy a \<and> moby_loop False f {} = {}
        \<longrightarrow> (\<exists>m. load_moby_words a (Some f) = Inl (RuntimeError m)))"
proof -
  have a: "\<forall>e. load_dwyl_words (dwyl_collected W) = Inl e \<or>
        load_scowl_words (scowl_collected W) = Inl e \<or>
        load_wordnet_words (wordnet_collected W) = Inl e \<or>
        load_wordfreq_words (wordfreq_collected W) = Inl e \<or>
        load_moby_words (moby_file W) (moby_lines W) = Inl e
        \<longrightarrow> (\<exists>e'. load_sources W = Inl e')"
    using load_sources_fails[of W] by blast
  have b: "\<forall>e. load_sources W = Inl e \<longrightarrow>
        load_dwyl_words (dwyl_collected W) = Inl e \<or>
        load_scowl_words (scowl_collected W) = Inl e \<or>
        load_wordnet_words (wordnet_collected W) = Inl e \<or>
        load_wordfreq_words (wordfreq_collected W) = Inl e \<or>
        load_moby_words (moby_file W) (moby_lines W) = Inl e"
    using load_sources_Inl[of W] by blast
  have c: "\<forall>e. load_sources W = Inl e \<and> (truthy (omit_file W) \<longrightarrow> omit_lines W \<noteq> None)
        \<longrightarrow> main W = (Some e, initial_state)"
    using main_load_failure[of W] by blast
  have d: "load_linux_dict_words None = Inr {}"
    by (simp add: load_linux_dict_words_def)
  have e: "\<forall>f. (\<forall>line \<in> set f. \<not> is_pure_alpha (str_lower (str_strip line)))
        \<longrightarrow> load_linux_dict_words (Some f) = Inr {}"
    using load_linux_dict_words_no_entry by blast
  have f: "\<forall>d. \<exists>S. load_linux_dict_words d = Inr S"
    using load_linux_dict_words_total by blast
  have g: "\<forall>a c. \<not> truthy a \<longrightarrow> load_moby_words a c = Inr {}"
    by (simp add: load_moby_words_def)
  have h: "\<forall>a. truthy a \<longrightarrow> (\<exists>m. load_moby_words a None = Inl (RuntimeError m))"
    by (simp add: load_moby_words_def)
  have i: "\<forall>a f. truthy a \<and> moby_loop False f {} = {}
        \<longrightarrow> (\<exists>m. load_moby_words a (Some f) = Inl (RuntimeError m))"
    by (simp add: load_moby_words_def)
  from a b c d e f g h i show ?thesis by blast
qed

text \<open>
  The run \<open>scowl_down\<close>, in which the SCOWL download fails; a dictionary file and a Moby
  file without a valid word.
\<close>

theorem source_failure_policy_witness:
  "load_scowl_words (scowl_collected scowl_down) =
     Inl (RuntimeError ''SCOWL download error'') \<and>
   load_sources scowl_down = Inl (RuntimeError ''SCOWL download error'') \<and>
   \<not> truthy (omit_file scowl_down) \<and>
   main scowl_down = (Some (RuntimeError ''SCOWL download error''), initial_state) \<and>
   \<not> is_pure_alpha (str_lower (str_strip ''Cat 7'')) \<and>
   load_linux_dict_words (Some [''Cat 7'']) = Inr {} \<and>
   \<not> truthy None \<and> load_moby_words None (Some [''Dog'']) = Inr {} \<and>
   truthy (Some ''m.txt'') \<and>
   load_moby_words (Some ''m.txt'') None =
     Inl (RuntimeError ''Moby loader error: file not found: m.txt'') \<and>
   moby_loop False [''Moby words'', ''Dog''] {} = {} \<and>
   (\<exists>m. load_moby_words (Some ''m.txt'') (Some [''Moby words'', ''Dog'']) =
          Inl (RuntimeError m))"
proof -
  have s: "load_scowl_words (scowl_collected scowl_down) =
      Inl (RuntimeError ''SCOWL download error'')"
    by (simp add: scowl_down_def load_scowl_words_def)
  have o: "\<not> truthy (omit_file scowl_down)"
    by (simp add: scowl_down_def truthy_def)
  have l: "load_sources scowl_down = Inl (RuntimeError ''SCOWL download error'')"
    by (simp add: scowl_down_def load_sources_def load_dwyl_words_def load_scowl_words_def)
  have p: "\<forall>line \<in> set [''Cat 7'']. \<not> is_pure_alpha (str_lower (str_strip line))"
    by (simp add: lower_strip_Cat7 not_pure_alpha_cat7)
  have t: "truthy (Some ''m.txt'')" "\<not> truthy None"
    by (simp_all add: truthy_def)
  note T = source_failure_policy[of scowl_down]
  from T l o
  have m: "main scowl_down = (Some (RuntimeError ''SCOWL download error''), initial_state)"
    by blast
  from T p have d: "load_linux_dict_words (Some [''Cat 7'']) = Inr {}"
    by blast
  from T t have y: "load_moby_words None (Some [''Dog'']) = Inr {}"
    by blast
  have n: "load_moby_words (Some ''m.txt'') None =
      Inl (RuntimeError ''Moby loader error: file not found: m.txt'')"
    using t by (simp add: load_moby_words_def)
  from T t moby_loop_no_section
  have q: "\<exists>m. load_moby_words (Some ''m.txt'') (Some [''Moby words'', ''Dog'']) =
          Inl (RuntimeError m)"
    by blast
  from s l o m d y t n q lower_strip_Cat7 not_pure_alpha_cat7 moby_loop_no_section
  show ?thesis by simp
qed

section \<open>The validator: which tokens are looked up\<close>

text \<open>
  Claim C5 says that a token which, once in lower case, has a character outside a-z is
  skipped and never looked up. The code tests \<^verbatim>\<open>w.isalpha()\<close>, which is true of every
  letter, not only of a-z. Of the three lines Cat, xyz123 and cafe with an acute accent
  (its last character is U+00E9), xyz123 is skipped as the claim says, but the accented
  word is kept, although it is not a pure a-z word, and is looked up in the trie (here
  the trie built from cat and dog).
\<close>

theorem validator_keeps_non_ascii_letter:
  "load_words_to_validate
     (Some [''Cat'' @ [CHR 0x0A], ''xyz123'' @ [CHR 0x0A], ''caf'' @ [CHR 0xE9, CHR 0x0A]]) =
     Inr ([''cat'', ''caf'' @ [CHR 0xE9]], [''xyz123'']) \<and>
   is_pure_alpha (''caf'' @ [CHR 0xE9]) = False \<and>
   (case build_trie [''cat'', ''dog''] of
      Inl e \<Rightarrow> Inl e
    | Inr root \<Rightarrow>
        validate_words root
          (Some [''Cat'' @ [CHR 0x0A], ''xyz123'' @ [CHR 0x0A], ''caf'' @ [CHR 0xE9, CHR 0x0A]])) =
     Inr ([(''cat'', True), (''caf'' @ [CHR 0xE9], False)], 1, 1)"
  by code_simp

section \<open>The trie file: what makes loading fail\<close>




end
